theory Spec2Isabelle
  imports Main "HOL-Library.Word"
begin

unbundle bit_operations_syntax

section \<open>Data model\<close>

text \<open>
  The client-side rename operator of CurveFS (\<^verbatim>\<open>RenameOperator\<close>) and the in-memory inode
  storage of the metaserver (\<^verbatim>\<open>MemoryInodeStorage\<close>).

  The protobuf messages and the status enumerations are declared in files that are not
  part of the translation units embedded here. A message is a record with one field per
  accessor the code calls; an enumeration is a datatype with the enumerators the code
  names and one further constructor standing for all the others. \<open>RPC_ERROR\<close> is not
  named by the code: it is the error that the spec's taxonomy gives for a failed
  transaction-id lookup.
\<close>

datatype CURVEFS_ERROR =
    OK
  | INTERNAL
  | NOTEXIST
  | NOTEMPTY
  | RPC_ERROR
  | CURVEFS_ERROR_other nat

datatype MetaStatusCode =
    Meta_OK
  | Meta_INODE_EXIST
  | Meta_NOT_FOUND
  | Meta_other nat

datatype TopoStatusCode =
    TOPO_OK
  | TOPO_other nat

text \<open>
  \<^verbatim>\<open>Dentry\<close>: the accessors used are \<^verbatim>\<open>inodeid()\<close>, \<^verbatim>\<open>flag()\<close>, \<^verbatim>\<open>set_txid\<close>,
  \<^verbatim>\<open>set_flag\<close>, \<^verbatim>\<open>set_parentinodeid\<close> and \<^verbatim>\<open>set_name\<close>; the file-system id is the
  remaining attribute of a directory entry. Identifiers are 64-bit, the file-system id and
  the flag word are 32-bit.
\<close>

record Dentry =
  fsid :: "32 word"
  inodeid :: "64 word"
  parentinodeid :: "64 word"
  name :: string
  txid :: "64 word"
  flag :: "32 word"

text \<open>
  \<^verbatim>\<open>PartitionTxId\<close>: the accessors used are \<^verbatim>\<open>set_partitionid\<close> and \<^verbatim>\<open>set_txid\<close>.
\<close>

record PartitionTxId =
  pt_partitionid :: "32 word"
  pt_txid :: "64 word"

text \<open>The handle (\<^verbatim>\<open>std::shared_ptr<InodeWrapper>\<close>) is identified by a number.\<close>

type_synonym InodeWrapper = nat

text \<open>The members of \<^verbatim>\<open>RenameOperator\<close> other than the four collaborator pointers; the
  member \<^verbatim>\<open>fsId_\<close> is the field \<open>m_fsId\<close>, and so on.\<close>

record RenameOperator =
  m_fsId :: "32 word"
  m_parentId :: "64 word"
  m_name :: string
  m_newParentId :: "64 word"
  m_newname :: string
  m_srcPartitionId :: "32 word"
  m_dstPartitionId :: "32 word"
  m_srcTxId :: "64 word"
  m_dstTxId :: "64 word"
  m_oldInodeId :: "64 word"
  m_srcDentry :: Dentry
  m_dstDentry :: Dentry
  m_dentry :: Dentry
  m_newDentry :: Dentry

section \<open>Collaborators\<close>

text \<open>
  Every call the operator makes on a collaborator is recorded, in order, with its
  arguments. Logging is not a collaborator call and is left out.
\<close>

datatype call =
    MetaClient_GetTxId "32 word" "64 word"
  | MetaClient_SetTxId "32 word" "64 word"
  | MetaClient_PrepareRenameTx "Dentry list"
  | DentryManager_GetDentry "64 word" string
  | DentryManager_ListDentry "64 word" "32 word"
  | DentryManager_DeleteCache "64 word" string
  | DentryManager_InsertOrReplaceCache Dentry
  | InodeManager_GetInode "64 word"
  | InodeWrapper_UnLinkLocked InodeWrapper
  | MdsClient_CommitTx "PartitionTxId list"

text \<open>
  The collaborators are reached through pointers and their code is elsewhere, so what they
  answer is a parameter: each answer is a function of the calls made so far and of the
  arguments. An out-parameter is passed in with its current value and comes back with the
  value the callee left in it. The three \<^verbatim>\<open>DentryFlag\<close> enumerators and the status
  translation \<^verbatim>\<open>MetaStatusCodeToCurvefsErrCode\<close> are declared elsewhere as well and are
  parameters too.
\<close>

record env =
  TYPE_FILE_FLAG :: "32 word"
  DELETE_MARK_FLAG :: "32 word"
  TRANSACTION_PREPARE_FLAG :: "32 word"
  MetaStatusCodeToCurvefsErrCode :: "MetaStatusCode \<Rightarrow> CURVEFS_ERROR"
  metaClient_GetTxId ::
    "call list \<Rightarrow> 32 word \<Rightarrow> 64 word \<Rightarrow> 32 word \<Rightarrow> 64 word
      \<Rightarrow> MetaStatusCode \<times> 32 word \<times> 64 word"
  metaClient_PrepareRenameTx :: "call list \<Rightarrow> Dentry list \<Rightarrow> MetaStatusCode"
  dentryManager_GetDentry ::
    "call list \<Rightarrow> 64 word \<Rightarrow> string \<Rightarrow> Dentry \<Rightarrow> CURVEFS_ERROR \<times> Dentry"
  dentryManager_ListDentry ::
    "call list \<Rightarrow> 64 word \<Rightarrow> 32 word \<Rightarrow> CURVEFS_ERROR \<times> Dentry list"
  inodeManager_GetInode :: "call list \<Rightarrow> 64 word \<Rightarrow> CURVEFS_ERROR \<times> InodeWrapper"
  inodeWrapper_UnLinkLocked :: "call list \<Rightarrow> InodeWrapper \<Rightarrow> CURVEFS_ERROR"
  mdsClient_CommitTx :: "call list \<Rightarrow> PartitionTxId list \<Rightarrow> TopoStatusCode"

section \<open>The rename operator\<close>

text \<open>A default-constructed \<^verbatim>\<open>Dentry\<close> message.\<close>

definition Dentry_default :: Dentry where
  "Dentry_default =
     \<lparr>fsid = 0, inodeid = 0, parentinodeid = 0, name = [], txid = 0, flag = 0\<rparr>"

text \<open>The constructor.\<close>

definition RenameOperator_new ::
  "32 word \<Rightarrow> 64 word \<Rightarrow> string \<Rightarrow> 64 word \<Rightarrow> string \<Rightarrow> RenameOperator" where
  "RenameOperator_new fsId parentId nm newParentId newname =
     \<lparr>m_fsId = fsId, m_parentId = parentId, m_name = nm,
      m_newParentId = newParentId, m_newname = newname,
      m_srcPartitionId = 0, m_dstPartitionId = 0, m_srcTxId = 0, m_dstTxId = 0,
      m_oldInodeId = 0,
      m_srcDentry = Dentry_default, m_dstDentry = Dentry_default,
      m_dentry = Dentry_default, m_newDentry = Dentry_default\<rparr>"

text \<open>
  Each member function takes the calls made so far and the operator, and returns its
  status, the calls made so far afterwards, and the operator as it leaves it.
\<close>

definition GetTxId_for ::
  "env \<Rightarrow> call list \<Rightarrow> 32 word \<Rightarrow> 64 word \<Rightarrow> 32 word \<Rightarrow> 64 word
    \<Rightarrow> CURVEFS_ERROR \<times> call list \<times> 32 word \<times> 64 word" where
  \<comment> \<open>the overload \<^verbatim>\<open>GetTxId(fsId, inodeId, partitionId, txId)\<close>\<close>
  "GetTxId_for e h fsId inodeId partitionId txId =
     (case metaClient_GetTxId e h fsId inodeId partitionId txId of
        (rc, partitionId', txId') \<Rightarrow>
          (MetaStatusCodeToCurvefsErrCode e rc,
           h @ [MetaClient_GetTxId fsId inodeId], partitionId', txId'))"

definition SetTxId :: "call list \<Rightarrow> 32 word \<Rightarrow> 64 word \<Rightarrow> call list" where
  "SetTxId h partitionId txId = h @ [MetaClient_SetTxId partitionId txId]"

definition GetTxId ::
  "env \<Rightarrow> call list \<Rightarrow> RenameOperator \<Rightarrow> CURVEFS_ERROR \<times> call list \<times> RenameOperator" where
  \<comment> \<open>the overload \<^verbatim>\<open>GetTxId()\<close>\<close>
  "GetTxId e h ro =
     (case GetTxId_for e h (m_fsId ro) (m_parentId ro) (m_srcPartitionId ro) (m_srcTxId ro) of
        (rc, h1, p, t) \<Rightarrow>
          let ro1 = ro\<lparr>m_srcPartitionId := p, m_srcTxId := t\<rparr>
          in if rc \<noteq> OK then (rc, h1, ro1)
             else
               (case GetTxId_for e h1 (m_fsId ro1) (m_newParentId ro1)
                       (m_dstPartitionId ro1) (m_dstTxId ro1) of
                  (rc2, h2, p2, t2) \<Rightarrow>
                    (rc2, h2, ro1\<lparr>m_dstPartitionId := p2, m_dstTxId := t2\<rparr>)))"

definition CheckOverwrite ::
  "env \<Rightarrow> call list \<Rightarrow> RenameOperator \<Rightarrow> CURVEFS_ERROR \<times> call list" where
  "CheckOverwrite e h ro =
     (if flag (m_dstDentry ro) AND TYPE_FILE_FLAG e \<noteq> 0 then (OK, h)
      else
        (case dentryManager_ListDentry e h (inodeid (m_dstDentry ro)) 1 of
           (rc, dentrys) \<Rightarrow>
             (if rc = OK \<and> dentrys \<noteq> [] then NOTEMPTY else rc,
              h @ [DentryManager_ListDentry (inodeid (m_dstDentry ro)) 1])))"

definition Precheck ::
  "env \<Rightarrow> call list \<Rightarrow> RenameOperator \<Rightarrow> CURVEFS_ERROR \<times> call list \<times> RenameOperator" where
  "Precheck e h ro =
     (case dentryManager_GetDentry e h (m_parentId ro) (m_name ro) (m_srcDentry ro) of
        (rc, d) \<Rightarrow>
          let h1 = h @ [DentryManager_GetDentry (m_parentId ro) (m_name ro)];
              ro1 = ro\<lparr>m_srcDentry := d\<rparr>
          in if rc \<noteq> OK then (rc, h1, ro1)
             else
               (case dentryManager_GetDentry e h1 (m_newParentId ro1) (m_newname ro1)
                       (m_dstDentry ro1) of
                  (rc2, d2) \<Rightarrow>
                    let h2 = h1 @ [DentryManager_GetDentry (m_newParentId ro1) (m_newname ro1)];
                        ro2 = ro1\<lparr>m_dstDentry := d2\<rparr>
                    in if rc2 = NOTEXIST then (OK, h2, ro2)
                       else if rc2 = OK then
                         (let ro3 = ro2\<lparr>m_oldInodeId := inodeid (m_dstDentry ro2)\<rparr>
                          in case CheckOverwrite e h2 ro3 of (rc3, h3) \<Rightarrow> (rc3, h3, ro3))
                       else (rc2, h2, ro2)))"

definition PrepareRenameTx ::
  "env \<Rightarrow> call list \<Rightarrow> Dentry list \<Rightarrow> CURVEFS_ERROR \<times> call list" where
  "PrepareRenameTx e h dentrys =
     (let rc = metaClient_PrepareRenameTx e h dentrys
      in (MetaStatusCodeToCurvefsErrCode e rc, h @ [MetaClient_PrepareRenameTx dentrys]))"

definition PrepareTx ::
  "env \<Rightarrow> call list \<Rightarrow> RenameOperator \<Rightarrow> CURVEFS_ERROR \<times> call list \<times> RenameOperator" where
  "PrepareTx e h ro =
     (let d0 = (m_srcDentry ro)\<lparr>txid := m_srcTxId ro + 1\<rparr>;
          d1 = d0\<lparr>flag := flag d0 OR DELETE_MARK_FLAG e OR TRANSACTION_PREPARE_FLAG e\<rparr>;
          ro1 = ro\<lparr>m_dentry := d1\<rparr>;
          n0 = (m_srcDentry ro1)\<lparr>parentinodeid := m_newParentId ro1\<rparr>;
          n1 = n0\<lparr>name := m_newname ro1\<rparr>;
          n2 = n1\<lparr>txid := m_dstTxId ro1 + 1\<rparr>;
          n3 = n2\<lparr>flag := flag n2 OR TRANSACTION_PREPARE_FLAG e\<rparr>;
          ro2 = ro1\<lparr>m_newDentry := n3\<rparr>;
          dentrys = [m_dentry ro2]
      in if m_srcPartitionId ro2 = m_dstPartitionId ro2 then
           (case PrepareRenameTx e h (dentrys @ [m_newDentry ro2]) of
              (rc, h1) \<Rightarrow> (rc, h1, ro2))
         else
           (case PrepareRenameTx e h dentrys of
              (rc, h1) \<Rightarrow>
                if rc = OK then
                  (case PrepareRenameTx e h1 (dentrys[0 := m_newDentry ro2]) of
                     (rc2, h2) \<Rightarrow> (rc2, h2, ro2))
                else (rc, h1, ro2)))"

definition CommitTx ::
  "env \<Rightarrow> call list \<Rightarrow> RenameOperator \<Rightarrow> CURVEFS_ERROR \<times> call list \<times> RenameOperator" where
  "CommitTx e h ro =
     (let p0 = \<lparr>pt_partitionid = 0, pt_txid = 0\<rparr>;
          p1 = p0\<lparr>pt_partitionid := m_srcPartitionId ro\<rparr>;
          p2 = p1\<lparr>pt_txid := m_srcTxId ro + 1\<rparr>;
          txIds = [] @ [p2];
          txIds' =
            (if m_srcPartitionId ro \<noteq> m_dstPartitionId ro then
               (let p3 = p2\<lparr>pt_partitionid := m_dstPartitionId ro\<rparr>;
                    p4 = p3\<lparr>pt_txid := m_dstTxId ro + 1\<rparr>
                in txIds @ [p4])
             else txIds);
          rc = mdsClient_CommitTx e h txIds';
          h1 = h @ [MdsClient_CommitTx txIds']
      in if rc \<noteq> TOPO_OK then (INTERNAL, h1, ro) else (OK, h1, ro))"

text \<open>
  \<^verbatim>\<open>UnlinkOldInode\<close> and \<^verbatim>\<open>UpdateCache\<close> are \<^verbatim>\<open>void\<close>: they return the calls made so
  far and the operator, and no status.
\<close>

definition UnlinkOldInode ::
  "env \<Rightarrow> call list \<Rightarrow> RenameOperator \<Rightarrow> call list \<times> RenameOperator" where
  "UnlinkOldInode e h ro =
     (if m_oldInodeId ro = 0 then (h, ro)
      else
        (case inodeManager_GetInode e h (m_oldInodeId ro) of
           (rc, inodeWrapper) \<Rightarrow>
             let h1 = h @ [InodeManager_GetInode (m_oldInodeId ro)]
             in if rc \<noteq> OK then (h1, ro)
                else
                  (let rc2 = inodeWrapper_UnLinkLocked e h1 inodeWrapper
                   in (h1 @ [InodeWrapper_UnLinkLocked inodeWrapper], ro))))"

definition UpdateCache ::
  "env \<Rightarrow> call list \<Rightarrow> RenameOperator \<Rightarrow> call list \<times> RenameOperator" where
  "UpdateCache e h ro =
     (let h1 = h @ [DentryManager_DeleteCache (m_parentId ro) (m_name ro)];
          h2 = h1 @ [DentryManager_InsertOrReplaceCache (m_newDentry ro)];
          h3 = SetTxId h2 (m_srcPartitionId ro) (m_srcTxId ro + 1);
          h4 = SetTxId h3 (m_dstPartitionId ro) (m_dstTxId ro + 1)
      in (h4, ro))"

subsection \<open>The caller\<close>

text \<open>
  Modelled from the spec: the function that constructs a \<^verbatim>\<open>RenameOperator\<close> and calls its
  steps is not among the sources. The spec (4.1) gives it: the six steps run in the order
  resolve transaction ids, precheck, prepare, commit, unlink, reconcile caches; the caller
  aborts the whole rename on the first failure and returns that step's outcome; the rename
  returns success once commit succeeds, the last two steps being housekeeping.
\<close>

definition Rename ::
  "env \<Rightarrow> 32 word \<Rightarrow> 64 word \<Rightarrow> string \<Rightarrow> 64 word \<Rightarrow> string
    \<Rightarrow> CURVEFS_ERROR \<times> call list \<times> RenameOperator" where
  "Rename e fsId parentId nm newParentId newname =
     (case GetTxId e [] (RenameOperator_new fsId parentId nm newParentId newname) of
        (rc1, h1, ro1) \<Rightarrow>
          if rc1 \<noteq> OK then (rc1, h1, ro1)
          else
            (case Precheck e h1 ro1 of
               (rc2, h2, ro2) \<Rightarrow>
                 if rc2 \<noteq> OK then (rc2, h2, ro2)
                 else
                   (case PrepareTx e h2 ro2 of
                      (rc3, h3, ro3) \<Rightarrow>
                        if rc3 \<noteq> OK then (rc3, h3, ro3)
                        else
                          (case CommitTx e h3 ro3 of
                             (rc4, h4, ro4) \<Rightarrow>
                               if rc4 \<noteq> OK then (rc4, h4, ro4)
                               else
                                 (case UnlinkOldInode e h4 ro4 of
                                    (h5, ro5) \<Rightarrow>
                                      (case UpdateCache e h5 ro5 of
                                         (h6, ro6) \<Rightarrow> (OK, h6, ro6)))))))"

subsection \<open>The status translation\<close>

text \<open>
  Modelled from the spec: \<^verbatim>\<open>MetaStatusCodeToCurvefsErrCode\<close> is defined in a file that is not
  among the sources. The spec (4.1, step 1) says of the two transaction-id lookups, whose
  status goes through this translation: "Fails with RPC_ERROR if either lookup fails". So
  the status of success is translated to success and any other status to
  \<open>RPC_ERROR\<close>.
\<close>

definition MetaStatusCodeToCurvefsErrCode_spec :: "MetaStatusCode \<Rightarrow> CURVEFS_ERROR" where
  "MetaStatusCodeToCurvefsErrCode_spec rc = (if rc = Meta_OK then OK else RPC_ERROR)"

section \<open>The in-memory inode storage\<close>

text \<open>
  \<^verbatim>\<open>MemoryInodeStorage\<close> holds \<^verbatim>\<open>inodeMap_\<close>, a hash map with unique keys from
  \<^verbatim>\<open>InodeKey\<close> to a shared pointer to an \<^verbatim>\<open>Inode\<close>; the read-write lock is taken for the
  whole of each member function, which is therefore one step. The \<^verbatim>\<open>Inode\<close> message and
  the \<^verbatim>\<open>InodeKey\<close> class are declared elsewhere: the inode type is a type variable and the
  constructor \<^verbatim>\<open>InodeKey(inode)\<close> is the parameter \<open>InodeKey\<close>. The map is kept by value:
  the pointer under a key is only ever written through by \<^verbatim>\<open>Update\<close>, under the lock.
\<close>

definition Insert ::
  "('i \<Rightarrow> 'k) \<Rightarrow> ('k \<rightharpoonup> 'i) \<Rightarrow> 'i \<Rightarrow> MetaStatusCode \<times> ('k \<rightharpoonup> 'i)" where
  \<comment> \<open>\<^verbatim>\<open>emplace\<close> inserts only where the key is absent, and says whether it did\<close>
  "Insert InodeKey inodeMap inode =
     (case inodeMap (InodeKey inode) of
        Some _ \<Rightarrow> (Meta_INODE_EXIST, inodeMap)
      | None \<Rightarrow> (Meta_OK, inodeMap(InodeKey inode \<mapsto> inode)))"

definition Get :: "('k \<rightharpoonup> 'i) \<Rightarrow> 'k \<Rightarrow> MetaStatusCode \<times> 'i option" where
  "Get inodeMap key =
     (case inodeMap key of
        None \<Rightarrow> (Meta_NOT_FOUND, None)
      | Some i \<Rightarrow> (Meta_OK, Some i))"

definition Delete :: "('k \<rightharpoonup> 'i) \<Rightarrow> 'k \<Rightarrow> MetaStatusCode \<times> ('k \<rightharpoonup> 'i)" where
  "Delete inodeMap key =
     (case inodeMap key of
        Some _ \<Rightarrow> (Meta_OK, inodeMap(key := None))
      | None \<Rightarrow> (Meta_NOT_FOUND, inodeMap))"

definition Update ::
  "('i \<Rightarrow> 'k) \<Rightarrow> ('k \<rightharpoonup> 'i) \<Rightarrow> 'i \<Rightarrow> MetaStatusCode \<times> ('k \<rightharpoonup> 'i)" where
  "Update InodeKey inodeMap inode =
     (case inodeMap (InodeKey inode) of
        None \<Rightarrow> (Meta_NOT_FOUND, inodeMap)
      | Some _ \<Rightarrow> (Meta_OK, inodeMap(InodeKey inode \<mapsto> inode)))"

section \<open>Example collaborators\<close>

text \<open>
  One concrete set of collaborators, on which the theorems below are exercised: parents
  below 100 are on partition 1, those below 200 on partition 2, the others on partition
  3, and parent 0 cannot be resolved; the metaserver rejects an entry named
  \<open>reject\<close>; the names \<open>foo\<close> and \<open>file\<close> are files, \<open>dir\<close> is a directory with
  one child, \<open>emptydir\<close> an empty one, \<open>baddir\<close> one that cannot be listed, and no other
  name exists; the cluster manager refuses a commit that involves partition 3.
\<close>

definition ex_GetTxId ::
  "call list \<Rightarrow> 32 word \<Rightarrow> 64 word \<Rightarrow> 32 word \<Rightarrow> 64 word \<Rightarrow> MetaStatusCode \<times> 32 word \<times> 64 word" where
  "ex_GetTxId h fsId inodeId partitionId txId =
     (if inodeId = 0 then (Meta_NOT_FOUND, partitionId, txId)
      else if inodeId < 100 then (Meta_OK, 1, 10)
      else if inodeId < 200 then (Meta_OK, 2, 20)
      else (Meta_OK, 3, 30))"

definition ex_PrepareRenameTx :: "call list \<Rightarrow> Dentry list \<Rightarrow> MetaStatusCode" where
  "ex_PrepareRenameTx h dentrys =
     (if list_ex (\<lambda>d. name d = ''reject'') dentrys then Meta_other 1 else Meta_OK)"

definition ex_entry :: "64 word \<Rightarrow> 64 word \<Rightarrow> string \<Rightarrow> 32 word \<Rightarrow> Dentry" where
  "ex_entry ino parent nm fl =
     \<lparr>fsid = 1, inodeid = ino, parentinodeid = parent, name = nm, txid = 3, flag = fl\<rparr>"

definition ex_GetDentry ::
  "call list \<Rightarrow> 64 word \<Rightarrow> string \<Rightarrow> Dentry \<Rightarrow> CURVEFS_ERROR \<times> Dentry" where
  "ex_GetDentry h parent nm d =
     (if nm = ''foo'' then (OK, ex_entry 5 parent nm 1)
      else if nm = ''file'' then (OK, ex_entry 6 parent nm 1)
      else if nm = ''dir'' then (OK, ex_entry 7 parent nm 0)
      else if nm = ''emptydir'' then (OK, ex_entry 8 parent nm 0)
      else if nm = ''baddir'' then (OK, ex_entry 9 parent nm 0)
      else (NOTEXIST, d))"

definition ex_ListDentry ::
  "call list \<Rightarrow> 64 word \<Rightarrow> 32 word \<Rightarrow> CURVEFS_ERROR \<times> Dentry list" where
  "ex_ListDentry h parent limit =
     (if parent = 7 then (OK, [ex_entry 70 7 ''child'' 1])
      else if parent = 8 then (OK, [])
      else (INTERNAL, []))"

definition ex_GetInode :: "call list \<Rightarrow> 64 word \<Rightarrow> CURVEFS_ERROR \<times> InodeWrapper" where
  "ex_GetInode h inodeId = (if inodeId = 8 then (NOTEXIST, 0) else (OK, unat inodeId))"

definition ex_UnLinkLocked :: "call list \<Rightarrow> InodeWrapper \<Rightarrow> CURVEFS_ERROR" where
  "ex_UnLinkLocked h w = (if w = 6 then INTERNAL else OK)"

definition ex_CommitTx :: "call list \<Rightarrow> PartitionTxId list \<Rightarrow> TopoStatusCode" where
  "ex_CommitTx h txIds =
     (if list_ex (\<lambda>p. pt_partitionid p = 3) txIds then TOPO_other 1 else TOPO_OK)"

definition ex_env :: env where
  "ex_env =
     \<lparr>TYPE_FILE_FLAG = 1, DELETE_MARK_FLAG = 2, TRANSACTION_PREPARE_FLAG = 4,
      MetaStatusCodeToCurvefsErrCode = MetaStatusCodeToCurvefsErrCode_spec,
      metaClient_GetTxId = ex_GetTxId,
      metaClient_PrepareRenameTx = ex_PrepareRenameTx,
      dentryManager_GetDentry = ex_GetDentry,
      dentryManager_ListDentry = ex_ListDentry,
      inodeManager_GetInode = ex_GetInode,
      inodeWrapper_UnLinkLocked = ex_UnLinkLocked,
      mdsClient_CommitTx = ex_CommitTx\<rparr>"

text \<open>An operator that has resolved its transaction ids and loaded the source entry.\<close>

definition ex_foo :: Dentry where
  "ex_foo = ex_entry 5 10 ''foo'' 1"

definition ex_ro :: "64 word \<Rightarrow> string \<Rightarrow> 32 word \<Rightarrow> 64 word \<Rightarrow> RenameOperator" where
  "ex_ro newParentId newname dstPartitionId dstTxId =
     (RenameOperator_new 1 10 ''foo'' newParentId newname)
       \<lparr>m_srcPartitionId := 1, m_dstPartitionId := dstPartitionId,
        m_srcTxId := 10, m_dstTxId := dstTxId, m_srcDentry := ex_foo\<rparr>"

text \<open>
  An inode storage whose inodes are triples of a file-system id, an inode id and a link
  count, keyed by the first two; it holds inode 5 of file system 1.
\<close>

definition ex_InodeKey :: "32 word \<times> 64 word \<times> nat \<Rightarrow> 32 word \<times> 64 word" where
  "ex_InodeKey inode = (fst inode, fst (snd inode))"

definition ex_inodeMap :: "32 word \<times> 64 word \<rightharpoonup> 32 word \<times> 64 word \<times> nat" where
  "ex_inodeMap = [(1, 5) \<mapsto> (1, 5, 2)]"

section \<open>Unfolding the examples\<close>

lemmas ex_defs = ex_env_def ex_GetTxId_def ex_PrepareRenameTx_def ex_GetDentry_def ex_ListDentry_def
  ex_GetInode_def ex_UnLinkLocked_def ex_CommitTx_def MetaStatusCodeToCurvefsErrCode_spec_def
  ex_foo_def ex_entry_def ex_ro_def RenameOperator_new_def Dentry_default_def

section \<open>Resolving the transaction ids\<close>

lemma GetTxId_src_fails:
  assumes "metaClient_GetTxId e h (m_fsId ro) (m_parentId ro) (m_srcPartitionId ro) (m_srcTxId ro)
             = (rc, p, t)"
    and "MetaStatusCodeToCurvefsErrCode e rc \<noteq> OK"
  shows "GetTxId e h ro =
           (MetaStatusCodeToCurvefsErrCode e rc,
            h @ [MetaClient_GetTxId (m_fsId ro) (m_parentId ro)],
            ro\<lparr>m_srcPartitionId := p, m_srcTxId := t\<rparr>)"
  using assms by (simp add: GetTxId_def GetTxId_for_def)

lemma GetTxId_src_succeeds:
  assumes "metaClient_GetTxId e h (m_fsId ro) (m_parentId ro) (m_srcPartitionId ro) (m_srcTxId ro)
             = (rc, p, t)"
    and "MetaStatusCodeToCurvefsErrCode e rc = OK"
    and "metaClient_GetTxId e (h @ [MetaClient_GetTxId (m_fsId ro) (m_parentId ro)])
           (m_fsId ro) (m_newParentId ro) (m_dstPartitionId ro) (m_dstTxId ro) = (rc2, p2, t2)"
  shows "GetTxId e h ro =
           (MetaStatusCodeToCurvefsErrCode e rc2,
            h @ [MetaClient_GetTxId (m_fsId ro) (m_parentId ro),
                 MetaClient_GetTxId (m_fsId ro) (m_newParentId ro)],
            ro\<lparr>m_srcPartitionId := p, m_srcTxId := t, m_dstPartitionId := p2, m_dstTxId := t2\<rparr>)"
  using assms by (simp add: GetTxId_def GetTxId_for_def)

text \<open>
  Claim C7. With the status translation as the spec gives it, \<^verbatim>\<open>GetTxId()\<close> returns
  \<open>RPC_ERROR\<close> when the lookup for the source parent fails (and then the destination
  parent is not looked up), returns \<open>RPC_ERROR\<close> when that lookup succeeds and the one for
  the destination parent fails, and returns \<open>OK\<close> exactly when both lookups succeed.
\<close>

theorem GetTxId_fails_with_RPC_ERROR:
  assumes "MetaStatusCodeToCurvefsErrCode e = MetaStatusCodeToCurvefsErrCode_spec"
  shows "let src = metaClient_GetTxId e h (m_fsId ro) (m_parentId ro)
                     (m_srcPartitionId ro) (m_srcTxId ro);
             dst = metaClient_GetTxId e (h @ [MetaClient_GetTxId (m_fsId ro) (m_parentId ro)])
                     (m_fsId ro) (m_newParentId ro) (m_dstPartitionId ro) (m_dstTxId ro)
         in (fst src \<noteq> Meta_OK \<longrightarrow>
               fst (GetTxId e h ro) = RPC_ERROR
             \<and> fst (snd (GetTxId e h ro)) = h @ [MetaClient_GetTxId (m_fsId ro) (m_parentId ro)])
          \<and> (fst src = Meta_OK \<and> fst dst \<noteq> Meta_OK \<longrightarrow>
               fst (GetTxId e h ro) = RPC_ERROR
             \<and> fst (snd (GetTxId e h ro)) =
                 h @ [MetaClient_GetTxId (m_fsId ro) (m_parentId ro),
                      MetaClient_GetTxId (m_fsId ro) (m_newParentId ro)])
          \<and> (fst (GetTxId e h ro) = OK \<longleftrightarrow> fst src = Meta_OK \<and> fst dst = Meta_OK)"
proof -
  obtain rc p t where s:
    "metaClient_GetTxId e h (m_fsId ro) (m_parentId ro) (m_srcPartitionId ro) (m_srcTxId ro)
       = (rc, p, t)"
    by (cases "metaClient_GetTxId e h (m_fsId ro) (m_parentId ro) (m_srcPartitionId ro) (m_srcTxId ro)")
  obtain rc2 p2 t2 where d:
    "metaClient_GetTxId e (h @ [MetaClient_GetTxId (m_fsId ro) (m_parentId ro)])
           (m_fsId ro) (m_newParentId ro) (m_dstPartitionId ro) (m_dstTxId ro) = (rc2, p2, t2)"
    by (cases "metaClient_GetTxId e (h @ [MetaClient_GetTxId (m_fsId ro) (m_parentId ro)])
           (m_fsId ro) (m_newParentId ro) (m_dstPartitionId ro) (m_dstTxId ro)")
  show ?thesis
  proof (cases "rc = Meta_OK")
    case True
    then have "MetaStatusCodeToCurvefsErrCode e rc = OK"
      by (simp add: assms MetaStatusCodeToCurvefsErrCode_spec_def)
    from GetTxId_src_succeeds [OF s this d] True show ?thesis
      by (simp add: s d Let_def assms MetaStatusCodeToCurvefsErrCode_spec_def)
  next
    case False
    then have "MetaStatusCodeToCurvefsErrCode e rc \<noteq> OK"
      by (simp add: assms MetaStatusCodeToCurvefsErrCode_spec_def)
    from GetTxId_src_fails [OF s this] False show ?thesis
      by (simp add: s d Let_def assms MetaStatusCodeToCurvefsErrCode_spec_def)
  qed
qed

theorem GetTxId_fails_with_RPC_ERROR_witness:
  "MetaStatusCodeToCurvefsErrCode ex_env = MetaStatusCodeToCurvefsErrCode_spec
   \<and> fst (GetTxId ex_env [] (RenameOperator_new 1 0 ''foo'' 10 ''bar'')) = RPC_ERROR
   \<and> fst (snd (GetTxId ex_env [] (RenameOperator_new 1 0 ''foo'' 10 ''bar''))) =
       [MetaClient_GetTxId 1 0]
   \<and> fst (GetTxId ex_env [] (RenameOperator_new 1 10 ''foo'' 0 ''bar'')) = RPC_ERROR
   \<and> fst (snd (GetTxId ex_env [] (RenameOperator_new 1 10 ''foo'' 0 ''bar''))) =
       [MetaClient_GetTxId 1 10, MetaClient_GetTxId 1 0]
   \<and> fst (GetTxId ex_env [] (RenameOperator_new 1 10 ''foo'' 110 ''bar'')) = OK"
proof -
  have h: "MetaStatusCodeToCurvefsErrCode ex_env = MetaStatusCodeToCurvefsErrCode_spec"
    by (simp add: ex_env_def)
  show ?thesis
    using h
      GetTxId_fails_with_RPC_ERROR [OF h, of "[]" "RenameOperator_new 1 0 ''foo'' 10 ''bar''"]
      GetTxId_fails_with_RPC_ERROR [OF h, of "[]" "RenameOperator_new 1 10 ''foo'' 0 ''bar''"]
      GetTxId_fails_with_RPC_ERROR [OF h, of "[]" "RenameOperator_new 1 10 ''foo'' 110 ''bar''"]
    by (simp add: ex_defs Let_def)
qed

section \<open>Staging\<close>

lemma PrepareTx_operator:
  "snd (snd (PrepareTx e h ro)) =
     ro\<lparr>m_dentry := (m_srcDentry ro)\<lparr>txid := m_srcTxId ro + 1,
            flag := flag (m_srcDentry ro) OR DELETE_MARK_FLAG e OR TRANSACTION_PREPARE_FLAG e\<rparr>,
        m_newDentry := (m_srcDentry ro)\<lparr>parentinodeid := m_newParentId ro,
            name := m_newname ro, txid := m_dstTxId ro + 1,
            flag := flag (m_srcDentry ro) OR TRANSACTION_PREPARE_FLAG e\<rparr>\<rparr>"
  by (simp add: PrepareTx_def Let_def split: prod.split)

lemma PrepareTx_same:
  assumes "m_srcPartitionId ro = m_dstPartitionId ro"
  shows "PrepareTx e h ro =
    (let tomb = (m_srcDentry ro)\<lparr>txid := m_srcTxId ro + 1,
           flag := flag (m_srcDentry ro) OR DELETE_MARK_FLAG e OR TRANSACTION_PREPARE_FLAG e\<rparr>;
         new = (m_srcDentry ro)\<lparr>parentinodeid := m_newParentId ro, name := m_newname ro,
           txid := m_dstTxId ro + 1,
           flag := flag (m_srcDentry ro) OR TRANSACTION_PREPARE_FLAG e\<rparr>
     in (MetaStatusCodeToCurvefsErrCode e (metaClient_PrepareRenameTx e h [tomb, new]),
         h @ [MetaClient_PrepareRenameTx [tomb, new]],
         ro\<lparr>m_dentry := tomb, m_newDentry := new\<rparr>))"
  using assms by (simp add: PrepareTx_def PrepareRenameTx_def Let_def)

lemma PrepareTx_cross:
  assumes "m_srcPartitionId ro \<noteq> m_dstPartitionId ro"
  shows "PrepareTx e h ro =
    (let tomb = (m_srcDentry ro)\<lparr>txid := m_srcTxId ro + 1,
           flag := flag (m_srcDentry ro) OR DELETE_MARK_FLAG e OR TRANSACTION_PREPARE_FLAG e\<rparr>;
         new = (m_srcDentry ro)\<lparr>parentinodeid := m_newParentId ro, name := m_newname ro,
           txid := m_dstTxId ro + 1,
           flag := flag (m_srcDentry ro) OR TRANSACTION_PREPARE_FLAG e\<rparr>;
         rc = MetaStatusCodeToCurvefsErrCode e (metaClient_PrepareRenameTx e h [tomb]);
         h1 = h @ [MetaClient_PrepareRenameTx [tomb]]
     in if rc = OK then
          (MetaStatusCodeToCurvefsErrCode e (metaClient_PrepareRenameTx e h1 [new]),
           h1 @ [MetaClient_PrepareRenameTx [new]], ro\<lparr>m_dentry := tomb, m_newDentry := new\<rparr>)
        else (rc, h1, ro\<lparr>m_dentry := tomb, m_newDentry := new\<rparr>))"
  using assms by (simp add: PrepareTx_def PrepareRenameTx_def Let_def)

text \<open>
  Claim C2. Whatever the operator holds when \<^verbatim>\<open>PrepareTx\<close> starts, the staged tombstone is
  the source entry with its transaction id set to the source transaction id plus one (in
  64 bits) and the delete mark and the prepare flag added to its flags; the staged new
  entry is the source entry with the new parent, the new name, the destination transaction
  id plus one, and the prepare flag added. Every other field of both is that of the source
  entry.
\<close>

theorem PrepareTx_staged_entries:
  "let s = m_srcDentry ro;
       tomb = m_dentry (snd (snd (PrepareTx e h ro)));
       new = m_newDentry (snd (snd (PrepareTx e h ro)))
   in tomb = s\<lparr>txid := m_srcTxId ro + 1,
               flag := flag s OR DELETE_MARK_FLAG e OR TRANSACTION_PREPARE_FLAG e\<rparr>
    \<and> fsid tomb = fsid s \<and> inodeid tomb = inodeid s
    \<and> parentinodeid tomb = parentinodeid s \<and> name tomb = name s
    \<and> txid tomb = m_srcTxId ro + 1
    \<and> flag tomb = flag s OR DELETE_MARK_FLAG e OR TRANSACTION_PREPARE_FLAG e
    \<and> new = s\<lparr>parentinodeid := m_newParentId ro, name := m_newname ro,
               txid := m_dstTxId ro + 1, flag := flag s OR TRANSACTION_PREPARE_FLAG e\<rparr>
    \<and> fsid new = fsid s \<and> inodeid new = inodeid s
    \<and> parentinodeid new = m_newParentId ro \<and> name new = m_newname ro
    \<and> txid new = m_dstTxId ro + 1
    \<and> flag new = flag s OR TRANSACTION_PREPARE_FLAG e"
  by (simp add: PrepareTx_operator Let_def)

text \<open>
  Claim C1. On one partition \<^verbatim>\<open>PrepareTx\<close> makes one submission, of the tombstone followed
  by the new entry. On two partitions it submits the tombstone alone, and then the new
  entry alone exactly when the metaserver's answer to the first submission translates to
  \<open>OK\<close>; when it does not, that translated answer is returned after the one submission.
\<close>

theorem PrepareTx_submissions:
  "let tomb = (m_srcDentry ro)\<lparr>txid := m_srcTxId ro + 1,
         flag := flag (m_srcDentry ro) OR DELETE_MARK_FLAG e OR TRANSACTION_PREPARE_FLAG e\<rparr>;
       new = (m_srcDentry ro)\<lparr>parentinodeid := m_newParentId ro, name := m_newname ro,
         txid := m_dstTxId ro + 1,
         flag := flag (m_srcDentry ro) OR TRANSACTION_PREPARE_FLAG e\<rparr>;
       first = MetaStatusCodeToCurvefsErrCode e (metaClient_PrepareRenameTx e h [tomb]);
       calls = fst (snd (PrepareTx e h ro))
   in (m_srcPartitionId ro = m_dstPartitionId ro \<longrightarrow>
         calls = h @ [MetaClient_PrepareRenameTx [tomb, new]])
    \<and> (m_srcPartitionId ro \<noteq> m_dstPartitionId ro \<longrightarrow>
         (first = OK \<longrightarrow>
            calls = h @ [MetaClient_PrepareRenameTx [tomb], MetaClient_PrepareRenameTx [new]])
       \<and> (first \<noteq> OK \<longrightarrow>
            calls = h @ [MetaClient_PrepareRenameTx [tomb]]
          \<and> fst (PrepareTx e h ro) = first))"
proof (cases "m_srcPartitionId ro = m_dstPartitionId ro")
  case True
  then show ?thesis
    by (simp add: PrepareTx_same Let_def)
next
  case False
  then show ?thesis
    by (simp add: PrepareTx_cross Let_def)
qed

theorem PrepareTx_submissions_witness:
  "m_srcPartitionId (ex_ro 10 ''bar'' 1 10) = m_dstPartitionId (ex_ro 10 ''bar'' 1 10)
   \<and> fst (snd (PrepareTx ex_env [] (ex_ro 10 ''bar'' 1 10))) =
       [MetaClient_PrepareRenameTx
          [\<lparr>fsid = 1, inodeid = 5, parentinodeid = 10, name = ''foo'', txid = 11, flag = 7\<rparr>,
           \<lparr>fsid = 1, inodeid = 5, parentinodeid = 10, name = ''bar'', txid = 11, flag = 5\<rparr>]]
   \<and> m_srcPartitionId (ex_ro 110 ''bar'' 2 20) \<noteq> m_dstPartitionId (ex_ro 110 ''bar'' 2 20)
   \<and> metaClient_PrepareRenameTx ex_env []
        [\<lparr>fsid = 1, inodeid = 5, parentinodeid = 10, name = ''foo'', txid = 11, flag = 7\<rparr>]
       = Meta_OK
   \<and> fst (snd (PrepareTx ex_env [] (ex_ro 110 ''bar'' 2 20))) =
       [MetaClient_PrepareRenameTx
          [\<lparr>fsid = 1, inodeid = 5, parentinodeid = 10, name = ''foo'', txid = 11, flag = 7\<rparr>],
        MetaClient_PrepareRenameTx
          [\<lparr>fsid = 1, inodeid = 5, parentinodeid = 110, name = ''bar'', txid = 21, flag = 5\<rparr>]]
   \<and> m_srcPartitionId ((ex_ro 110 ''bar'' 2 20)\<lparr>m_srcDentry := ex_entry 5 10 ''reject'' 1\<rparr>)
       \<noteq> m_dstPartitionId ((ex_ro 110 ''bar'' 2 20)\<lparr>m_srcDentry := ex_entry 5 10 ''reject'' 1\<rparr>)
   \<and> metaClient_PrepareRenameTx ex_env []
        [\<lparr>fsid = 1, inodeid = 5, parentinodeid = 10, name = ''reject'', txid = 11, flag = 7\<rparr>]
       = Meta_other 1
   \<and> MetaStatusCodeToCurvefsErrCode ex_env (Meta_other 1) = RPC_ERROR
   \<and> fst (snd (PrepareTx ex_env []
        ((ex_ro 110 ''bar'' 2 20)\<lparr>m_srcDentry := ex_entry 5 10 ''reject'' 1\<rparr>))) =
       [MetaClient_PrepareRenameTx
          [\<lparr>fsid = 1, inodeid = 5, parentinodeid = 10, name = ''reject'', txid = 11, flag = 7\<rparr>]]
   \<and> fst (PrepareTx ex_env []
        ((ex_ro 110 ''bar'' 2 20)\<lparr>m_srcDentry := ex_entry 5 10 ''reject'' 1\<rparr>)) = RPC_ERROR"
  using PrepareTx_submissions [of "ex_ro 10 ''bar'' 1 10" ex_env "[]"]
    PrepareTx_submissions [of "ex_ro 110 ''bar'' 2 20" ex_env "[]"]
    PrepareTx_submissions
      [of "(ex_ro 110 ''bar'' 2 20)\<lparr>m_srcDentry := ex_entry 5 10 ''reject'' 1\<rparr>" ex_env "[]"]
  by (simp add: ex_defs Let_def)

text \<open>
  Claim C6. On two partitions, when the tombstone is accepted and the new entry is refused
  with \<open>rc\<close>, \<^verbatim>\<open>PrepareTx\<close> returns \<open>rc\<close> and has made those two submissions and no
  other call.
\<close>

theorem PrepareTx_second_submission_fails:
  assumes "m_srcPartitionId ro \<noteq> m_dstPartitionId ro"
    and "tomb = (m_srcDentry ro)\<lparr>txid := m_srcTxId ro + 1,
           flag := flag (m_srcDentry ro) OR DELETE_MARK_FLAG e OR TRANSACTION_PREPARE_FLAG e\<rparr>"
    and "new = (m_srcDentry ro)\<lparr>parentinodeid := m_newParentId ro, name := m_newname ro,
           txid := m_dstTxId ro + 1,
           flag := flag (m_srcDentry ro) OR TRANSACTION_PREPARE_FLAG e\<rparr>"
    and "PrepareRenameTx e h [tomb] = (OK, h1)"
    and "PrepareRenameTx e h1 [new] = (rc, h2)"
    and "rc \<noteq> OK"
  shows "PrepareTx e h ro =
           (rc, h @ [MetaClient_PrepareRenameTx [tomb], MetaClient_PrepareRenameTx [new]],
            ro\<lparr>m_dentry := tomb, m_newDentry := new\<rparr>)"
  using assms by (auto simp: PrepareTx_cross PrepareRenameTx_def Let_def)

theorem PrepareTx_second_submission_fails_witness:
  "PrepareTx ex_env [] (ex_ro 110 ''reject'' 2 20) =
     (RPC_ERROR,
      [MetaClient_PrepareRenameTx
         [\<lparr>fsid = 1, inodeid = 5, parentinodeid = 10, name = ''foo'', txid = 11, flag = 7\<rparr>],
       MetaClient_PrepareRenameTx
         [\<lparr>fsid = 1, inodeid = 5, parentinodeid = 110, name = ''reject'', txid = 21, flag = 5\<rparr>]],
      (ex_ro 110 ''reject'' 2 20)
        \<lparr>m_dentry := \<lparr>fsid = 1, inodeid = 5, parentinodeid = 10, name = ''foo'', txid = 11, flag = 7\<rparr>,
         m_newDentry := \<lparr>fsid = 1, inodeid = 5, parentinodeid = 110, name = ''reject'', txid = 21, flag = 5\<rparr>\<rparr>)"
proof -
  let ?ro = "ex_ro 110 ''reject'' 2 20"
  let ?tomb = "\<lparr>fsid = 1, inodeid = 5, parentinodeid = 10, name = ''foo'', txid = 11, flag = 7\<rparr>"
  let ?new = "\<lparr>fsid = 1, inodeid = 5, parentinodeid = 110, name = ''reject'', txid = 21, flag = 5\<rparr>"
  have 1: "m_srcPartitionId ?ro \<noteq> m_dstPartitionId ?ro"
    by (simp add: ex_defs)
  have 2: "?tomb = (m_srcDentry ?ro)\<lparr>txid := m_srcTxId ?ro + 1,
           flag := flag (m_srcDentry ?ro) OR DELETE_MARK_FLAG ex_env OR TRANSACTION_PREPARE_FLAG ex_env\<rparr>"
    by (simp add: ex_defs)
  have 3: "?new = (m_srcDentry ?ro)\<lparr>parentinodeid := m_newParentId ?ro, name := m_newname ?ro,
           txid := m_dstTxId ?ro + 1,
           flag := flag (m_srcDentry ?ro) OR TRANSACTION_PREPARE_FLAG ex_env\<rparr>"
    by (simp add: ex_defs)
  have 4: "PrepareRenameTx ex_env [] [?tomb] = (OK, [MetaClient_PrepareRenameTx [?tomb]])"
    by (simp add: ex_defs PrepareRenameTx_def)
  have 5: "PrepareRenameTx ex_env [MetaClient_PrepareRenameTx [?tomb]] [?new] =
             (RPC_ERROR, [MetaClient_PrepareRenameTx [?tomb], MetaClient_PrepareRenameTx [?new]])"
    by (simp add: ex_defs PrepareRenameTx_def)
  have 6: "RPC_ERROR \<noteq> OK" by simp
  show ?thesis
    using PrepareTx_second_submission_fails [OF 1 2 3 4 5 6] by simp
qed

section \<open>Commit\<close>

text \<open>
  Claim C3. The batch given to the cluster manager is the pair of the source partition and
  its transaction id plus one, followed by the pair of the destination partition and its
  transaction id plus one exactly when the two partitions differ; \<^verbatim>\<open>CommitTx\<close> returns
  \<open>OK\<close> when the cluster manager answers \<open>TOPO_OK\<close> and \<open>INTERNAL\<close> otherwise.
\<close>

theorem CommitTx_batch:
  "let src = \<lparr>pt_partitionid = m_srcPartitionId ro, pt_txid = m_srcTxId ro + 1\<rparr>;
       dst = \<lparr>pt_partitionid = m_dstPartitionId ro, pt_txid = m_dstTxId ro + 1\<rparr>;
       txIds = (if m_dstPartitionId ro \<noteq> m_srcPartitionId ro then [src, dst] else [src])
   in CommitTx e h ro =
        (if mdsClient_CommitTx e h txIds = TOPO_OK then OK else INTERNAL,
         h @ [MdsClient_CommitTx txIds], ro)"
  by (simp add: CommitTx_def Let_def)

theorem CommitTx_batch_witness:
  "CommitTx ex_env [] (ex_ro 10 ''bar'' 1 10) =
     (OK, [MdsClient_CommitTx [\<lparr>pt_partitionid = 1, pt_txid = 11\<rparr>]], ex_ro 10 ''bar'' 1 10)
   \<and> CommitTx ex_env [] (ex_ro 110 ''bar'' 2 20) =
     (OK, [MdsClient_CommitTx [\<lparr>pt_partitionid = 1, pt_txid = 11\<rparr>,
                                \<lparr>pt_partitionid = 2, pt_txid = 21\<rparr>]], ex_ro 110 ''bar'' 2 20)
   \<and> CommitTx ex_env [] (ex_ro 210 ''bar'' 3 30) =
     (INTERNAL, [MdsClient_CommitTx [\<lparr>pt_partitionid = 1, pt_txid = 11\<rparr>,
                                \<lparr>pt_partitionid = 3, pt_txid = 31\<rparr>]], ex_ro 210 ''bar'' 3 30)"
  using CommitTx_batch [of "ex_ro 10 ''bar'' 1 10" ex_env "[]"]
    CommitTx_batch [of "ex_ro 110 ''bar'' 2 20" ex_env "[]"]
    CommitTx_batch [of "ex_ro 210 ''bar'' 3 30" ex_env "[]"]
  by (simp add: ex_defs Let_def)

section \<open>Precheck\<close>

lemma GetTxId_OK:
  assumes "fst (GetTxId e h ro) = OK"
  shows "\<exists>p t p2 t2. GetTxId e h ro =
           (OK, h @ [MetaClient_GetTxId (m_fsId ro) (m_parentId ro),
                     MetaClient_GetTxId (m_fsId ro) (m_newParentId ro)],
            ro\<lparr>m_srcPartitionId := p, m_srcTxId := t,
               m_dstPartitionId := p2, m_dstTxId := t2\<rparr>)"
  using assms
  by (auto simp: GetTxId_def GetTxId_for_def Let_def split: prod.splits if_splits)

lemma Rename_stops_at_Precheck:
  assumes "GetTxId e [] (RenameOperator_new fsId parentId nm newParentId newname) = (OK, h1, ro1)"
    and "fst (Precheck e h1 ro1) \<noteq> OK"
  shows "Rename e fsId parentId nm newParentId newname = Precheck e h1 ro1"
proof (cases "Precheck e h1 ro1")
  case (fields rc2 h2 ro2)
  with assms show ?thesis by (simp add: Rename_def)
qed

lemma Precheck_src_fails:
  assumes "dentryManager_GetDentry e h (m_parentId ro) (m_name ro) (m_srcDentry ro) = (rc, d)"
    and "rc \<noteq> OK"
  shows "Precheck e h ro =
           (rc, h @ [DentryManager_GetDentry (m_parentId ro) (m_name ro)], ro\<lparr>m_srcDentry := d\<rparr>)"
  using assms by (simp add: Precheck_def Let_def)

lemma Precheck_dst_exists:
  assumes "dentryManager_GetDentry e h (m_parentId ro) (m_name ro) (m_srcDentry ro) = (OK, sd)"
    and "dentryManager_GetDentry e (h @ [DentryManager_GetDentry (m_parentId ro) (m_name ro)])
           (m_newParentId ro) (m_newname ro) (m_dstDentry ro) = (OK, dd)"
  shows "Precheck e h ro =
           (let h2 = h @ [DentryManager_GetDentry (m_parentId ro) (m_name ro),
                          DentryManager_GetDentry (m_newParentId ro) (m_newname ro)];
                ro3 = ro\<lparr>m_srcDentry := sd, m_dstDentry := dd, m_oldInodeId := inodeid dd\<rparr>
            in (fst (CheckOverwrite e h2 ro3), snd (CheckOverwrite e h2 ro3), ro3))"
  using assms by (simp add: Precheck_def Let_def split: prod.splits)

lemma CheckOverwrite_dir:
  assumes "flag (m_dstDentry ro) AND TYPE_FILE_FLAG e = 0"
    and "dentryManager_ListDentry e h (inodeid (m_dstDentry ro)) 1 = (rc, ds)"
  shows "CheckOverwrite e h ro =
           (if rc = OK \<and> ds \<noteq> [] then NOTEMPTY else rc,
            h @ [DentryManager_ListDentry (inodeid (m_dstDentry ro)) 1])"
  using assms by (simp add: CheckOverwrite_def)

lemma Rename_reaches_Precheck:
  assumes "fst (GetTxId e [] (RenameOperator_new fsId parentId nm newParentId newname)) = OK"
  obtains ro1 where
    "GetTxId e [] (RenameOperator_new fsId parentId nm newParentId newname) =
       (OK, [MetaClient_GetTxId fsId parentId, MetaClient_GetTxId fsId newParentId], ro1)"
    and "m_parentId ro1 = parentId" and "m_name ro1 = nm"
    and "m_newParentId ro1 = newParentId" and "m_newname ro1 = newname"
    and "m_srcDentry ro1 = Dentry_default" and "m_dstDentry ro1 = Dentry_default"
    and "m_oldInodeId ro1 = 0"
proof -
  let ?ro0 = "RenameOperator_new fsId parentId nm newParentId newname"
  from GetTxId_OK [OF assms]
  obtain p t p2 t2 where g: "GetTxId e [] ?ro0 =
      (OK, [MetaClient_GetTxId fsId parentId, MetaClient_GetTxId fsId newParentId],
       ?ro0\<lparr>m_srcPartitionId := p, m_srcTxId := t, m_dstPartitionId := p2, m_dstTxId := t2\<rparr>)"
    by (auto simp: RenameOperator_new_def)
  show thesis
    by (rule that [OF g]) (simp_all add: RenameOperator_new_def)
qed

lemma Rename_Precheck_dst_exists:
  assumes g: "fst (GetTxId e [] (RenameOperator_new fsId parentId nm newParentId newname)) = OK"
    and s: "dentryManager_GetDentry e
           [MetaClient_GetTxId fsId parentId, MetaClient_GetTxId fsId newParentId]
           parentId nm Dentry_default = (OK, sd)"
    and d: "dentryManager_GetDentry e
           [MetaClient_GetTxId fsId parentId, MetaClient_GetTxId fsId newParentId,
            DentryManager_GetDentry parentId nm]
           newParentId newname Dentry_default = (OK, dd)"
    and f: "flag dd AND TYPE_FILE_FLAG e = 0"
    and l: "dentryManager_ListDentry e
           [MetaClient_GetTxId fsId parentId, MetaClient_GetTxId fsId newParentId,
            DentryManager_GetDentry parentId nm, DentryManager_GetDentry newParentId newname]
           (inodeid dd) 1 = (rc, ds)"
    and n: "(if rc = OK \<and> ds \<noteq> [] then NOTEMPTY else rc) \<noteq> OK"
  shows "fst (Rename e fsId parentId nm newParentId newname) =
           (if rc = OK \<and> ds \<noteq> [] then NOTEMPTY else rc)
         \<and> fst (snd (Rename e fsId parentId nm newParentId newname)) =
           [MetaClient_GetTxId fsId parentId, MetaClient_GetTxId fsId newParentId,
            DentryManager_GetDentry parentId nm, DentryManager_GetDentry newParentId newname,
            DentryManager_ListDentry (inodeid dd) 1]
         \<and> m_oldInodeId (snd (snd (Rename e fsId parentId nm newParentId newname))) = inodeid dd"
proof -
  let ?h1 = "[MetaClient_GetTxId fsId parentId, MetaClient_GetTxId fsId newParentId]"
  from g obtain ro1 where g1: "GetTxId e [] (RenameOperator_new fsId parentId nm newParentId newname) =
       (OK, ?h1, ro1)"
    and r: "m_parentId ro1 = parentId" "m_name ro1 = nm" "m_newParentId ro1 = newParentId"
      "m_newname ro1 = newname" "m_srcDentry ro1 = Dentry_default"
      "m_dstDentry ro1 = Dentry_default"
    by (blast elim: Rename_reaches_Precheck)
  let ?ro3 = "ro1\<lparr>m_srcDentry := sd, m_dstDentry := dd, m_oldInodeId := inodeid dd\<rparr>"
  let ?h2 = "[MetaClient_GetTxId fsId parentId, MetaClient_GetTxId fsId newParentId,
      DentryManager_GetDentry parentId nm, DentryManager_GetDentry newParentId newname]"
  have pre: "Precheck e ?h1 ro1 =
      (fst (CheckOverwrite e ?h2 ?ro3), snd (CheckOverwrite e ?h2 ?ro3), ?ro3)"
    using Precheck_dst_exists [of e ?h1 ro1 sd dd] s d r by (simp add: Let_def)
  have co: "CheckOverwrite e ?h2 ?ro3 =
      (if rc = OK \<and> ds \<noteq> [] then NOTEMPTY else rc,
       ?h2 @ [DentryManager_ListDentry (inodeid dd) 1])"
    using CheckOverwrite_dir [of ?ro3 e ?h2 rc ds] f l by simp
  have "Rename e fsId parentId nm newParentId newname = Precheck e ?h1 ro1"
    by (rule Rename_stops_at_Precheck [OF g1]) (use n in \<open>simp add: pre co\<close>)
  then show ?thesis
    by (simp add: pre co)
qed

text \<open>
  Claim C4. When the lookup of the source entry answers \<open>NOTEXIST\<close>, \<^verbatim>\<open>Precheck\<close>
  returns \<open>NOTEXIST\<close> after that one call (the destination is not looked up) and leaves
  \<^verbatim>\<open>oldInodeId_\<close> as it was. For a whole rename that got its two transaction ids, the
  result is \<open>NOTEXIST\<close>, the calls made are the two transaction-id lookups and the source
  lookup and nothing else, and \<^verbatim>\<open>oldInodeId_\<close> is still 0.
\<close>

theorem Precheck_source_absent:
  "(dentryManager_GetDentry e h (m_parentId ro) (m_name ro) (m_srcDentry ro) = (NOTEXIST, d) \<longrightarrow>
      Precheck e h ro =
        (NOTEXIST, h @ [DentryManager_GetDentry (m_parentId ro) (m_name ro)],
         ro\<lparr>m_srcDentry := d\<rparr>)
      \<and> m_oldInodeId (snd (snd (Precheck e h ro))) = m_oldInodeId ro)
   \<and> (fst (GetTxId e [] (RenameOperator_new fsId parentId nm newParentId newname)) = OK
      \<and> dentryManager_GetDentry e
           [MetaClient_GetTxId fsId parentId, MetaClient_GetTxId fsId newParentId]
           parentId nm Dentry_default = (NOTEXIST, d') \<longrightarrow>
      fst (Rename e fsId parentId nm newParentId newname) = NOTEXIST
      \<and> fst (snd (Rename e fsId parentId nm newParentId newname)) =
          [MetaClient_GetTxId fsId parentId, MetaClient_GetTxId fsId newParentId,
           DentryManager_GetDentry parentId nm]
      \<and> m_oldInodeId (snd (snd (Rename e fsId parentId nm newParentId newname))) = 0)"
proof (intro conjI impI)
  assume a: "dentryManager_GetDentry e h (m_parentId ro) (m_name ro) (m_srcDentry ro) = (NOTEXIST, d)"
  show p: "Precheck e h ro =
        (NOTEXIST, h @ [DentryManager_GetDentry (m_parentId ro) (m_name ro)],
         ro\<lparr>m_srcDentry := d\<rparr>)"
    using Precheck_src_fails [OF a] by simp
  show "m_oldInodeId (snd (snd (Precheck e h ro))) = m_oldInodeId ro"
    by (simp add: p)
next
  let ?h1 = "[MetaClient_GetTxId fsId parentId, MetaClient_GetTxId fsId newParentId]"
  assume b: "fst (GetTxId e [] (RenameOperator_new fsId parentId nm newParentId newname)) = OK
      \<and> dentryManager_GetDentry e ?h1 parentId nm Dentry_default = (NOTEXIST, d')"
  then obtain ro1 where g: "GetTxId e [] (RenameOperator_new fsId parentId nm newParentId newname) =
       (OK, ?h1, ro1)"
    and f: "m_parentId ro1 = parentId" "m_name ro1 = nm" "m_srcDentry ro1 = Dentry_default"
      "m_oldInodeId ro1 = 0"
    by (blast elim: Rename_reaches_Precheck)
  have pre: "Precheck e ?h1 ro1 =
      (NOTEXIST, ?h1 @ [DentryManager_GetDentry parentId nm], ro1\<lparr>m_srcDentry := d'\<rparr>)"
    using Precheck_src_fails [of e ?h1 ro1 NOTEXIST d'] b f by simp
  have r: "Rename e fsId parentId nm newParentId newname = Precheck e ?h1 ro1"
    by (rule Rename_stops_at_Precheck [OF g]) (simp add: pre)
  show "fst (Rename e fsId parentId nm newParentId newname) = NOTEXIST"
    by (simp add: r pre)
  show "fst (snd (Rename e fsId parentId nm newParentId newname)) =
          [MetaClient_GetTxId fsId parentId, MetaClient_GetTxId fsId newParentId,
           DentryManager_GetDentry parentId nm]"
    by (simp add: r pre)
  show "m_oldInodeId (snd (snd (Rename e fsId parentId nm newParentId newname))) = 0"
    by (simp add: r pre f)
qed

theorem Precheck_source_absent_witness:
  "dentryManager_GetDentry ex_env [] (m_parentId (RenameOperator_new 1 10 ''nope'' 10 ''bar''))
       (m_name (RenameOperator_new 1 10 ''nope'' 10 ''bar''))
       (m_srcDentry (RenameOperator_new 1 10 ''nope'' 10 ''bar'')) = (NOTEXIST, Dentry_default)
   \<and> Precheck ex_env [] (RenameOperator_new 1 10 ''nope'' 10 ''bar'') =
       (NOTEXIST, [DentryManager_GetDentry 10 ''nope''], RenameOperator_new 1 10 ''nope'' 10 ''bar'')
   \<and> fst (GetTxId ex_env [] (RenameOperator_new 1 10 ''nope'' 210 ''file'')) = OK
   \<and> dentryManager_GetDentry ex_env [MetaClient_GetTxId 1 10, MetaClient_GetTxId 1 210]
        10 ''nope'' Dentry_default = (NOTEXIST, Dentry_default)
   \<and> fst (Rename ex_env 1 10 ''nope'' 210 ''file'') = NOTEXIST
   \<and> fst (snd (Rename ex_env 1 10 ''nope'' 210 ''file'')) =
        [MetaClient_GetTxId 1 10, MetaClient_GetTxId 1 210, DentryManager_GetDentry 10 ''nope'']
   \<and> m_oldInodeId (snd (snd (Rename ex_env 1 10 ''nope'' 210 ''file''))) = 0"
proof -
  have 1: "dentryManager_GetDentry ex_env [] (m_parentId (RenameOperator_new 1 10 ''nope'' 10 ''bar''))
       (m_name (RenameOperator_new 1 10 ''nope'' 10 ''bar''))
       (m_srcDentry (RenameOperator_new 1 10 ''nope'' 10 ''bar'')) = (NOTEXIST, Dentry_default)"
    by (simp add: ex_defs)
  have 2: "fst (GetTxId ex_env [] (RenameOperator_new 1 10 ''nope'' 210 ''file'')) = OK"
    by (simp add: ex_defs GetTxId_def GetTxId_for_def)
  have 3: "dentryManager_GetDentry ex_env [MetaClient_GetTxId 1 10, MetaClient_GetTxId 1 210]
        10 ''nope'' Dentry_default = (NOTEXIST, Dentry_default)"
    by (simp add: ex_defs)
  show ?thesis
    using 1 2 3
      Precheck_source_absent [where e = ex_env and h = "[]"
        and ro = "RenameOperator_new 1 10 ''nope'' 10 ''bar''" and d = Dentry_default
        and fsId = 1 and parentId = 10 and nm = "''nope''" and newParentId = 210
        and newname = "''file''" and d' = Dentry_default]
    by (simp add: RenameOperator_new_def)
qed

text \<open>
  Claim C5. When both the source and the destination entry are found: if the destination's
  flags have a bit of \<open>TYPE_FILE_FLAG\<close> the overwrite check returns \<open>OK\<close> and lists
  nothing; otherwise the children of the destination are listed with limit 1, a successful
  listing with an entry gives \<open>NOTEMPTY\<close> and a successful empty one gives \<open>OK\<close>. In
  every case \<^verbatim>\<open>oldInodeId_\<close> is the inode id of the destination entry. A whole rename that
  ends in \<open>NOTEMPTY\<close> has made the two transaction-id lookups, the two entry lookups and
  the listing, and no other call.
\<close>

theorem Precheck_overwrite:
  "(dentryManager_GetDentry e h (m_parentId ro) (m_name ro) (m_srcDentry ro) = (OK, sd)
    \<and> dentryManager_GetDentry e (h @ [DentryManager_GetDentry (m_parentId ro) (m_name ro)])
        (m_newParentId ro) (m_newname ro) (m_dstDentry ro) = (OK, dd) \<longrightarrow>
      (let h2 = h @ [DentryManager_GetDentry (m_parentId ro) (m_name ro),
                     DentryManager_GetDentry (m_newParentId ro) (m_newname ro)];
           ro3 = ro\<lparr>m_srcDentry := sd, m_dstDentry := dd, m_oldInodeId := inodeid dd\<rparr>;
           listing = dentryManager_ListDentry e h2 (inodeid dd) 1;
           listed = h2 @ [DentryManager_ListDentry (inodeid dd) 1]
       in (flag dd AND TYPE_FILE_FLAG e \<noteq> 0 \<longrightarrow>
             CheckOverwrite e h2 ro3 = (OK, h2) \<and> Precheck e h ro = (OK, h2, ro3))
        \<and> (flag dd AND TYPE_FILE_FLAG e = 0 \<longrightarrow>
             snd (CheckOverwrite e h2 ro3) = listed
           \<and> fst (snd (Precheck e h ro)) = listed)
        \<and> (flag dd AND TYPE_FILE_FLAG e = 0 \<and> fst listing = OK \<and> snd listing \<noteq> [] \<longrightarrow>
             CheckOverwrite e h2 ro3 = (NOTEMPTY, listed)
           \<and> Precheck e h ro = (NOTEMPTY, listed, ro3))
        \<and> (flag dd AND TYPE_FILE_FLAG e = 0 \<and> listing = (OK, []) \<longrightarrow>
             CheckOverwrite e h2 ro3 = (OK, listed)
           \<and> Precheck e h ro = (OK, listed, ro3))
        \<and> m_oldInodeId (snd (snd (Precheck e h ro))) = inodeid dd))
   \<and> (fst (GetTxId e [] (RenameOperator_new fsId parentId nm newParentId newname)) = OK
      \<and> dentryManager_GetDentry e
           [MetaClient_GetTxId fsId parentId, MetaClient_GetTxId fsId newParentId]
           parentId nm Dentry_default = (OK, sd')
      \<and> dentryManager_GetDentry e
           [MetaClient_GetTxId fsId parentId, MetaClient_GetTxId fsId newParentId,
            DentryManager_GetDentry parentId nm]
           newParentId newname Dentry_default = (OK, dd')
      \<and> flag dd' AND TYPE_FILE_FLAG e = 0
      \<and> dentryManager_ListDentry e
           [MetaClient_GetTxId fsId parentId, MetaClient_GetTxId fsId newParentId,
            DentryManager_GetDentry parentId nm, DentryManager_GetDentry newParentId newname]
           (inodeid dd') 1 = (OK, ds)
      \<and> ds \<noteq> [] \<longrightarrow>
      fst (Rename e fsId parentId nm newParentId newname) = NOTEMPTY
      \<and> fst (snd (Rename e fsId parentId nm newParentId newname)) =
          [MetaClient_GetTxId fsId parentId, MetaClient_GetTxId fsId newParentId,
           DentryManager_GetDentry parentId nm, DentryManager_GetDentry newParentId newname,
           DentryManager_ListDentry (inodeid dd') 1]
      \<and> m_oldInodeId (snd (snd (Rename e fsId parentId nm newParentId newname))) = inodeid dd')"
  (is "(?src \<and> ?dst \<longrightarrow> ?pre) \<and> (?hyp \<longrightarrow> ?ren)")
proof -
  have 1: "?src \<and> ?dst \<longrightarrow> ?pre"
  proof
    assume "?src \<and> ?dst"
    then have pre: "Precheck e h ro =
           (let h2 = h @ [DentryManager_GetDentry (m_parentId ro) (m_name ro),
                          DentryManager_GetDentry (m_newParentId ro) (m_newname ro)];
                ro3 = ro\<lparr>m_srcDentry := sd, m_dstDentry := dd, m_oldInodeId := inodeid dd\<rparr>
            in (fst (CheckOverwrite e h2 ro3), snd (CheckOverwrite e h2 ro3), ro3))"
      by (simp add: Precheck_dst_exists)
    show ?pre
      unfolding pre Let_def by (simp add: CheckOverwrite_def split: prod.splits)
  qed
  have 2: "?hyp \<longrightarrow> ?ren"
  proof
    assume a: ?hyp
    then have "(if OK = OK \<and> ds \<noteq> [] then NOTEMPTY else OK) \<noteq> OK"
      by simp
    with a show ?ren
      using Rename_Precheck_dst_exists [of e fsId parentId nm newParentId newname sd' dd' OK ds]
      by simp
  qed
  show ?thesis
    by (rule conjI [OF 1 2])
qed

theorem Precheck_overwrite_witness:
  "Precheck ex_env [] (RenameOperator_new 1 10 ''foo'' 10 ''file'') =
     (OK, [DentryManager_GetDentry 10 ''foo'', DentryManager_GetDentry 10 ''file''],
      (RenameOperator_new 1 10 ''foo'' 10 ''file'')
        \<lparr>m_srcDentry := ex_foo, m_dstDentry := ex_entry 6 10 ''file'' 1, m_oldInodeId := 6\<rparr>)
   \<and> Precheck ex_env [] (RenameOperator_new 1 10 ''foo'' 10 ''dir'') =
     (NOTEMPTY,
      [DentryManager_GetDentry 10 ''foo'', DentryManager_GetDentry 10 ''dir'',
       DentryManager_ListDentry 7 1],
      (RenameOperator_new 1 10 ''foo'' 10 ''dir'')
        \<lparr>m_srcDentry := ex_foo, m_dstDentry := ex_entry 7 10 ''dir'' 0, m_oldInodeId := 7\<rparr>)
   \<and> Precheck ex_env [] (RenameOperator_new 1 10 ''foo'' 10 ''emptydir'') =
     (OK,
      [DentryManager_GetDentry 10 ''foo'', DentryManager_GetDentry 10 ''emptydir'',
       DentryManager_ListDentry 8 1],
      (RenameOperator_new 1 10 ''foo'' 10 ''emptydir'')
        \<lparr>m_srcDentry := ex_foo, m_dstDentry := ex_entry 8 10 ''emptydir'' 0, m_oldInodeId := 8\<rparr>)
   \<and> fst (Rename ex_env 1 10 ''foo'' 110 ''dir'') = NOTEMPTY
   \<and> fst (snd (Rename ex_env 1 10 ''foo'' 110 ''dir'')) =
       [MetaClient_GetTxId 1 10, MetaClient_GetTxId 1 110,
        DentryManager_GetDentry 10 ''foo'', DentryManager_GetDentry 110 ''dir'',
        DentryManager_ListDentry 7 1]
   \<and> m_oldInodeId (snd (snd (Rename ex_env 1 10 ''foo'' 110 ''dir''))) = 7"
proof -
  have g: "fst (GetTxId ex_env [] (RenameOperator_new 1 10 ''foo'' 110 ''dir'')) = OK"
    by (simp add: ex_defs GetTxId_def GetTxId_for_def)
  show ?thesis
    using g
      Precheck_overwrite [where e = ex_env and h = "[]"
        and ro = "RenameOperator_new 1 10 ''foo'' 10 ''file''"
        and sd = ex_foo and dd = "ex_entry 6 10 ''file'' 1"]
      Precheck_overwrite [where e = ex_env and h = "[]"
        and ro = "RenameOperator_new 1 10 ''foo'' 10 ''dir''"
        and sd = ex_foo and dd = "ex_entry 7 10 ''dir'' 0"]
      Precheck_overwrite [where e = ex_env and h = "[]"
        and ro = "RenameOperator_new 1 10 ''foo'' 10 ''emptydir''"
        and sd = ex_foo and dd = "ex_entry 8 10 ''emptydir'' 0"
        and fsId = 1 and parentId = 10 and nm = "''foo''" and newParentId = 110
        and newname = "''dir''" and sd' = ex_foo and dd' = "ex_entry 7 110 ''dir'' 0"
        and ds = "[ex_entry 70 7 ''child'' 1]"]
    by (simp add: ex_defs Let_def)
qed

text \<open>
  Claim C9. For a destination that is not a file, when the listing of its children answers
  a status \<open>rc\<close> other than \<open>OK\<close>, the overwrite check returns \<open>rc\<close> whatever entries
  came with it, \<^verbatim>\<open>Precheck\<close> returns \<open>rc\<close>, and the whole rename ends with \<open>rc\<close>
  after the listing.
\<close>

theorem CheckOverwrite_listing_fails:
  "(flag (m_dstDentry ro) AND TYPE_FILE_FLAG e = 0
    \<and> dentryManager_ListDentry e h (inodeid (m_dstDentry ro)) 1 = (rc, ds)
    \<and> rc \<noteq> OK \<longrightarrow>
      CheckOverwrite e h ro = (rc, h @ [DentryManager_ListDentry (inodeid (m_dstDentry ro)) 1]))
   \<and> (dentryManager_GetDentry e h' (m_parentId ro') (m_name ro') (m_srcDentry ro') = (OK, sd)
      \<and> dentryManager_GetDentry e (h' @ [DentryManager_GetDentry (m_parentId ro') (m_name ro')])
          (m_newParentId ro') (m_newname ro') (m_dstDentry ro') = (OK, dd)
      \<and> flag dd AND TYPE_FILE_FLAG e = 0
      \<and> dentryManager_ListDentry e
          (h' @ [DentryManager_GetDentry (m_parentId ro') (m_name ro'),
                 DentryManager_GetDentry (m_newParentId ro') (m_newname ro')])
          (inodeid dd) 1 = (rc', ds')
      \<and> rc' \<noteq> OK \<longrightarrow>
      Precheck e h' ro' =
        (rc',
         h' @ [DentryManager_GetDentry (m_parentId ro') (m_name ro'),
               DentryManager_GetDentry (m_newParentId ro') (m_newname ro'),
               DentryManager_ListDentry (inodeid dd) 1],
         ro'\<lparr>m_srcDentry := sd, m_dstDentry := dd, m_oldInodeId := inodeid dd\<rparr>))
   \<and> (fst (GetTxId e [] (RenameOperator_new fsId parentId nm newParentId newname)) = OK
      \<and> dentryManager_GetDentry e
           [MetaClient_GetTxId fsId parentId, MetaClient_GetTxId fsId newParentId]
           parentId nm Dentry_default = (OK, sd'')
      \<and> dentryManager_GetDentry e
           [MetaClient_GetTxId fsId parentId, MetaClient_GetTxId fsId newParentId,
            DentryManager_GetDentry parentId nm]
           newParentId newname Dentry_default = (OK, dd'')
      \<and> flag dd'' AND TYPE_FILE_FLAG e = 0
      \<and> dentryManager_ListDentry e
           [MetaClient_GetTxId fsId parentId, MetaClient_GetTxId fsId newParentId,
            DentryManager_GetDentry parentId nm, DentryManager_GetDentry newParentId newname]
           (inodeid dd'') 1 = (rc'', ds'')
      \<and> rc'' \<noteq> OK \<longrightarrow>
      fst (Rename e fsId parentId nm newParentId newname) = rc''
      \<and> fst (snd (Rename e fsId parentId nm newParentId newname)) =
          [MetaClient_GetTxId fsId parentId, MetaClient_GetTxId fsId newParentId,
           DentryManager_GetDentry parentId nm, DentryManager_GetDentry newParentId newname,
           DentryManager_ListDentry (inodeid dd'') 1])"
  (is "(?a \<longrightarrow> ?co) \<and> (?b \<longrightarrow> ?pre) \<and> (?c \<longrightarrow> ?ren)")
proof -
  have 1: "?a \<longrightarrow> ?co"
    by (simp add: CheckOverwrite_def)
  have 2: "?b \<longrightarrow> ?pre"
  proof
    assume b: ?b
    then have "Precheck e h' ro' =
           (let h2 = h' @ [DentryManager_GetDentry (m_parentId ro') (m_name ro'),
                          DentryManager_GetDentry (m_newParentId ro') (m_newname ro')];
                ro3 = ro'\<lparr>m_srcDentry := sd, m_dstDentry := dd, m_oldInodeId := inodeid dd\<rparr>
            in (fst (CheckOverwrite e h2 ro3), snd (CheckOverwrite e h2 ro3), ro3))"
      by (simp add: Precheck_dst_exists)
    with b show ?pre
      by (simp add: Let_def CheckOverwrite_def)
  qed
  have 3: "?c \<longrightarrow> ?ren"
  proof
    assume c: ?c
    then have "(if rc'' = OK \<and> ds'' \<noteq> [] then NOTEMPTY else rc'') \<noteq> OK"
      by simp
    with c show ?ren
      using Rename_Precheck_dst_exists [of e fsId parentId nm newParentId newname sd'' dd'' rc'' ds'']
      by simp
  qed
  show ?thesis
    by (rule conjI [OF 1 conjI [OF 2 3]])
qed

theorem CheckOverwrite_listing_fails_witness:
  "CheckOverwrite ex_env [] ((ex_ro 10 ''baddir'' 1 10)\<lparr>m_dstDentry := ex_entry 9 10 ''baddir'' 0\<rparr>) =
     (INTERNAL, [DentryManager_ListDentry 9 1])
   \<and> Precheck ex_env [] (RenameOperator_new 1 10 ''foo'' 10 ''baddir'') =
     (INTERNAL,
      [DentryManager_GetDentry 10 ''foo'', DentryManager_GetDentry 10 ''baddir'',
       DentryManager_ListDentry 9 1],
      (RenameOperator_new 1 10 ''foo'' 10 ''baddir'')
        \<lparr>m_srcDentry := ex_foo, m_dstDentry := ex_entry 9 10 ''baddir'' 0, m_oldInodeId := 9\<rparr>)
   \<and> fst (Rename ex_env 1 10 ''foo'' 110 ''baddir'') = INTERNAL
   \<and> fst (snd (Rename ex_env 1 10 ''foo'' 110 ''baddir'')) =
       [MetaClient_GetTxId 1 10, MetaClient_GetTxId 1 110,
        DentryManager_GetDentry 10 ''foo'', DentryManager_GetDentry 110 ''baddir'',
        DentryManager_ListDentry 9 1]"
proof -
  have g: "fst (GetTxId ex_env [] (RenameOperator_new 1 10 ''foo'' 110 ''baddir'')) = OK"
    by (simp add: ex_defs GetTxId_def GetTxId_for_def)
  show ?thesis
    using g
      CheckOverwrite_listing_fails [where e = ex_env and h = "[]"
        and ro = "(ex_ro 10 ''baddir'' 1 10)\<lparr>m_dstDentry := ex_entry 9 10 ''baddir'' 0\<rparr>"
        and rc = INTERNAL and ds = "[]"
        and h' = "[]" and ro' = "RenameOperator_new 1 10 ''foo'' 10 ''baddir''"
        and sd = ex_foo and dd = "ex_entry 9 10 ''baddir'' 0" and rc' = INTERNAL and ds' = "[]"
        and fsId = 1 and parentId = 10 and nm = "''foo''" and newParentId = 110
        and newname = "''baddir''" and sd'' = ex_foo and dd'' = "ex_entry 9 110 ''baddir'' 0"
        and rc'' = INTERNAL and ds'' = "[]"]
    by (simp add: ex_defs)
qed

section \<open>Unlinking the overwritten inode\<close>

text \<open>
  Claim C8. \<^verbatim>\<open>UnlinkOldInode\<close> makes no call when \<^verbatim>\<open>oldInodeId_\<close> is 0. Otherwise it looks
  the inode up; when the lookup fails it stops there, and when it succeeds it calls
  \<^verbatim>\<open>UnLinkLocked\<close> on the handle it got. It has no status to return, the operator is
  unchanged, and whatever \<^verbatim>\<open>UnLinkLocked\<close> answers the outcome is the same.
\<close>

theorem UnlinkOldInode_outcomes:
  "let lookup = inodeManager_GetInode e h (m_oldInodeId ro);
       h1 = h @ [InodeManager_GetInode (m_oldInodeId ro)]
   in (m_oldInodeId ro = 0 \<longrightarrow> UnlinkOldInode e h ro = (h, ro))
    \<and> (m_oldInodeId ro \<noteq> 0 \<and> fst lookup \<noteq> OK \<longrightarrow> UnlinkOldInode e h ro = (h1, ro))
    \<and> (m_oldInodeId ro \<noteq> 0 \<and> fst lookup = OK \<longrightarrow>
         UnlinkOldInode e h ro = (h1 @ [InodeWrapper_UnLinkLocked (snd lookup)], ro))
    \<and> UnlinkOldInode (e\<lparr>inodeWrapper_UnLinkLocked := answer\<rparr>) h ro = UnlinkOldInode e h ro"
  by (simp add: UnlinkOldInode_def Let_def split: prod.splits)

theorem UnlinkOldInode_outcomes_witness:
  "UnlinkOldInode ex_env [] (ex_ro 10 ''bar'' 1 10) = ([], ex_ro 10 ''bar'' 1 10)
   \<and> UnlinkOldInode ex_env [] ((ex_ro 10 ''emptydir'' 1 10)\<lparr>m_oldInodeId := 8\<rparr>) =
       ([InodeManager_GetInode 8], (ex_ro 10 ''emptydir'' 1 10)\<lparr>m_oldInodeId := 8\<rparr>)
   \<and> inodeWrapper_UnLinkLocked ex_env [InodeManager_GetInode 6] 6 = INTERNAL
   \<and> UnlinkOldInode ex_env [] ((ex_ro 10 ''file'' 1 10)\<lparr>m_oldInodeId := 6\<rparr>) =
       ([InodeManager_GetInode 6, InodeWrapper_UnLinkLocked 6],
        (ex_ro 10 ''file'' 1 10)\<lparr>m_oldInodeId := 6\<rparr>)"
  using UnlinkOldInode_outcomes [where e = ex_env and h = "[]" and ro = "ex_ro 10 ''bar'' 1 10"
      and answer = ex_UnLinkLocked]
    UnlinkOldInode_outcomes [where e = ex_env and h = "[]"
      and ro = "(ex_ro 10 ''emptydir'' 1 10)\<lparr>m_oldInodeId := 8\<rparr>" and answer = ex_UnLinkLocked]
    UnlinkOldInode_outcomes [where e = ex_env and h = "[]"
      and ro = "(ex_ro 10 ''file'' 1 10)\<lparr>m_oldInodeId := 6\<rparr>" and answer = ex_UnLinkLocked]
  by (simp add: ex_defs Let_def)

section \<open>Inode storage\<close>

text \<open>
  Claim C10. \<^verbatim>\<open>Insert\<close> of an inode whose key is present returns \<open>INODE_EXIST\<close> and
  leaves the map as it was; \<^verbatim>\<open>Update\<close> of an inode whose key is absent returns
  \<open>NOT_FOUND\<close> and leaves the map as it was.
\<close>

theorem Insert_present_Update_absent:
  "(inodeMap (InodeKey inode) \<noteq> None \<longrightarrow>
      Insert InodeKey inodeMap inode = (Meta_INODE_EXIST, inodeMap))
   \<and> (inodeMap (InodeKey inode) = None \<longrightarrow>
      Update InodeKey inodeMap inode = (Meta_NOT_FOUND, inodeMap))"
  by (auto simp: Insert_def Update_def)

theorem Insert_present_Update_absent_witness:
  "ex_inodeMap (ex_InodeKey (1, 5, 9)) = Some (1, 5, 2)
   \<and> Insert ex_InodeKey ex_inodeMap (1, 5, 9) = (Meta_INODE_EXIST, ex_inodeMap)
   \<and> ex_inodeMap (ex_InodeKey (1, 6, 9)) = None
   \<and> Update ex_InodeKey ex_inodeMap (1, 6, 9) = (Meta_NOT_FOUND, ex_inodeMap)"
  using Insert_present_Update_absent [of ex_inodeMap ex_InodeKey "(1, 5, 9)"]
    Insert_present_Update_absent [of ex_inodeMap ex_InodeKey "(1, 6, 9)"]
  by (simp add: ex_inodeMap_def ex_InodeKey_def)

end
